theory Spec2Isabelle
  imports Main
begin

section \<open>The Vite configuration of the frontend (frontend/vite.config.mjs)\<close>

text \<open>
  The module exports \<^verbatim>\<open>defineConfig(({ mode }) => { ... })\<close>: a callback from the
  context object that Vite passes (of which only the field \<^verbatim>\<open>mode\<close> is read) to
  the configuration object. The callback uses three things it does not define itself:
  the imported plugin factory \<^verbatim>\<open>tailwindcss\<close>, Node's \<^verbatim>\<open>path.resolve\<close>, and the
  free identifier \<^verbatim>\<open>__dirname\<close>. They are made explicit below.
\<close>

subsection \<open>JavaScript primitives the callback relies on\<close>

text \<open>
  Reading an identifier that has no binding raises \<^verbatim>\<open>ReferenceError\<close>; the error
  carries the identifier's name.
\<close>

datatype js_error = ReferenceError string

text \<open>
  The template literal \<^verbatim>\<open>`http://${devHost}:${devPort}`\<close> converts the number
  \<^verbatim>\<open>devPort\<close> to a string. For an integral number (below \<open>10\<^sup>2\<^sup>1\<close> in magnitude)
  that is its decimal numeral, with a minus sign when negative.
\<close>

definition digit_char :: "nat \<Rightarrow> char" where
  "digit_char d = ''0123456789'' ! (d mod 10)"

fun nat_digits :: "nat \<Rightarrow> string" where
  "nat_digits n =
     (if n < 10 then [digit_char n]
      else nat_digits (n div 10) @ [digit_char (n mod 10)])"

declare nat_digits.simps [simp del]

definition number_to_string :: "int \<Rightarrow> string" where
  "number_to_string i =
     (if i < 0 then CHR ''-'' # nat_digits (nat (- i)) else nat_digits (nat i))"

subsection \<open>Node's \<^verbatim>\<open>path.resolve\<close> (POSIX)\<close>

text \<open>
  \<^verbatim>\<open>path.resolve\<close> is library code of Node, not of the repository. It is modelled
  after the library's algorithm for POSIX paths, on path segments instead of character
  indices: the arguments are taken from the right, each non-empty one is put in front
  of the path built so far, until one starts with a slash; when none does, the
  process's working directory is used as well. The path is then normalised (empty
  segments and \<^verbatim>\<open>.\<close> dropped, \<^verbatim>\<open>..\<close> removing the segment before it), and for an
  absolute path a leading slash is put back.
\<close>

fun segments :: "string \<Rightarrow> string list" where
  "segments [] = [[]]"
| "segments (c # cs) =
     (if c = CHR ''/'' then [] # segments cs
      else (case segments cs of [] \<Rightarrow> [[c]] | s # ss \<Rightarrow> (c # s) # ss))"

fun join_segments :: "string list \<Rightarrow> string" where
  "join_segments [] = []"
| "join_segments [s] = s"
| "join_segments (s # t # ss) = s @ ''/'' @ join_segments (t # ss)"

definition push_segment :: "bool \<Rightarrow> string list \<Rightarrow> string \<Rightarrow> string list" where
  "push_segment allowAboveRoot res seg =
     (if seg = [] \<or> seg = ''.'' then res
      else if seg = ''..'' then
        (if res \<noteq> [] \<and> last res \<noteq> ''..'' then butlast res
         else if allowAboveRoot then res @ [''..'']
         else res)
      else res @ [seg])"

definition normalizeString :: "string \<Rightarrow> bool \<Rightarrow> string" where
  "normalizeString path allowAboveRoot =
     join_segments (foldl (push_segment allowAboveRoot) [] (segments path))"

text \<open>
  The loop of \<^verbatim>\<open>resolve\<close>, over the arguments from the right followed by the
  working directory: the path built so far, and whether it is absolute.
\<close>

fun resolve_loop :: "string list \<Rightarrow> string \<Rightarrow> string \<times> bool" where
  "resolve_loop [] resolvedPath = (resolvedPath, False)"
| "resolve_loop (p # ps) resolvedPath =
     (case p of
        [] \<Rightarrow> resolve_loop ps resolvedPath
      | c # _ \<Rightarrow>
          if c = CHR ''/'' then (p @ ''/'' @ resolvedPath, True)
          else resolve_loop ps (p @ ''/'' @ resolvedPath))"

definition path_resolve :: "string \<Rightarrow> string list \<Rightarrow> string" where
  "path_resolve cwd args =
     (case resolve_loop (rev args @ [cwd]) [] of
        (resolvedPath, resolvedAbsolute) \<Rightarrow>
          let normalized = normalizeString resolvedPath (\<not> resolvedAbsolute)
          in if resolvedAbsolute then ''/'' @ normalized
             else if normalized \<noteq> [] then normalized
             else ''.'')"

subsection \<open>What the module takes from its surroundings\<close>

text \<open>
  \<^item> \<open>dirname\<close>: the binding of \<^verbatim>\<open>__dirname\<close>. The file declares none, and an ES
    module (\<^verbatim>\<open>.mjs\<close>) gets none from Node, so the value is the one the loader of the
    configuration file supplies (the directory of the file), or there is none.
  \<^item> \<open>cwd\<close>: the working directory of the process, which \<^verbatim>\<open>path.resolve\<close> reads
    when no argument is absolute.
  \<^item> \<open>tailwindcss\<close>: the plugin factory imported from \<^verbatim>\<open>@tailwindcss/vite\<close>; the
    type \<open>'p\<close> is that of the plugin handles it returns.
\<close>

record 'p runtime =
  dirname :: "string option"
  cwd :: string
  tailwindcss :: "unit \<Rightarrow> 'p"

subsection \<open>The configuration object\<close>

record server_options =
  host :: string
  port :: int
  strictPort :: bool
  origin :: string

text \<open>
  The object under \<^verbatim>\<open>rollupOptions\<close> is handed to Rollup as it is; it is kept as
  the list of its keys and values, so that the keys it has and the keys it lacks can
  both be told.
\<close>

record build_options =
  manifest :: bool
  outDir :: string
  emptyOutDir :: bool
  rollupOptions :: "(string \<times> string) list"

text \<open>The alias object, as the list of its keys and values in the order written.\<close>

record resolve_options =
  "alias" :: "(string \<times> string) list"

record 'p user_config =
  base :: string
  plugins :: "'p list"
  server :: server_options
  build :: build_options
  resolve :: resolve_options

text \<open>
  The context object the callback destructures: it reads the field \<^verbatim>\<open>mode\<close> and
  nothing else, so any record that extends this one is a context.
\<close>

record config_env =
  mode :: string

subsection \<open>The callback\<close>

definition isDev :: "string \<Rightarrow> bool" where
  "isDev m = (m = ''development'')"

definition devHost :: string where
  "devHost = ''localhost''"

definition devPort :: int where
  "devPort = 5173"

definition devOrigin :: "string \<Rightarrow> string" where
  "devOrigin m =
     (if isDev m then ''http://'' @ devHost @ '':'' @ number_to_string devPort else [])"

definition config_callback ::
  "'p runtime \<Rightarrow> 'a config_env_scheme \<Rightarrow> js_error + 'p user_config" where
  "config_callback rt ctx =
     (case dirname rt of
        None \<Rightarrow> Inl (ReferenceError ''__dirname'')
      | Some d \<Rightarrow>
          Inr \<lparr> base = devOrigin (mode ctx) @ ''/static/'',
                plugins = [tailwindcss rt ()],
                server = \<lparr> host = devHost,
                           port = devPort,
                           strictPort = True,
                           origin = devOrigin (mode ctx) \<rparr>,
                build = \<lparr> manifest = True,
                          outDir = ''./dist/'',
                          emptyOutDir = True,
                          rollupOptions = [(''main'', ''./src/main.js'')] \<rparr>,
                resolve = \<lparr> alias = [(''@'', path_resolve (cwd rt) [d, ''./src''])] \<rparr> \<rparr>)"

text \<open>Vite's \<^verbatim>\<open>defineConfig\<close> returns its argument; it exists for type hints only.\<close>

definition defineConfig :: "'a \<Rightarrow> 'a" where
  "defineConfig config = config"

definition default_export ::
  "'p runtime \<Rightarrow> 'a config_env_scheme \<Rightarrow> js_error + 'p user_config" where
  "default_export rt = defineConfig (config_callback rt)"

subsection \<open>Paths as lists of names\<close>

text \<open>
  A name is a path segment that normalisation keeps as it is. The directory whose
  names from the root are \<open>names\<close> has the path \<open>absolute_path names\<close>; the root
  itself is \<open>absolute_path []\<close>, the single slash.
\<close>

definition is_name :: "string \<Rightarrow> bool" where
  "is_name s = (s \<noteq> [] \<and> s \<noteq> ''.'' \<and> s \<noteq> ''..'' \<and> CHR ''/'' \<notin> set s)"

definition absolute_path :: "string list \<Rightarrow> string" where
  "absolute_path names = ''/'' @ join_segments names"

text \<open>
  A runtime as Vite's bundling loader gives it for a configuration file at
  \<^verbatim>\<open>/srv/app/frontend/vite.config.mjs\<close>, started from \<^verbatim>\<open>/srv/app\<close>.
\<close>

definition example_runtime :: "string runtime" where
  "example_runtime =
     \<lparr> dirname = Some ''/srv/app/frontend'',
       cwd = ''/srv/app'',
       tailwindcss = (\<lambda>_. ''@tailwindcss/vite'') \<rparr>"

text \<open>
  A runtime as Node gives it when it imports the file as the ES module it is: there
  is no binding of \<^verbatim>\<open>__dirname\<close>.
\<close>

definition node_esm_runtime :: "string runtime" where
  "node_esm_runtime =
     \<lparr> dirname = None,
       cwd = ''/srv/app'',
       tailwindcss = (\<lambda>_. ''@tailwindcss/vite'') \<rparr>"

subsection \<open>The entry of the bundle, as Rollup reads it\<close>

text \<open>
  Rollup takes the entry of the bundle from its option \<^verbatim>\<open>input\<close>, and Vite takes it
  from \<^verbatim>\<open>build.rollupOptions.input\<close>; neither knows an option \<^verbatim>\<open>main\<close>. This is
  behaviour of the tools the configuration is written for, not of the repository.
\<close>

definition rollup_input :: "build_options \<Rightarrow> string option" where
  "rollup_input b = map_of (rollupOptions b) ''input''"

subsection \<open>The callback with its environment made explicit\<close>

text \<open>
  The same callback, with the state \<open>w\<close> of everything outside it passed in and
  out. Its body assigns to nothing and writes no property; the one step that can
  touch \<open>w\<close> is the call \<^verbatim>\<open>tailwindcss()\<close>, so the factory is a function from the
  state to the handle it returns and the state it leaves. The properties of the object
  literal are evaluated in the order written: the factory is called (for
  \<^verbatim>\<open>plugins\<close>) before \<^verbatim>\<open>__dirname\<close> is read (for \<^verbatim>\<open>resolve\<close>), so when that read
  raises, the factory's call has already happened.
\<close>

definition invoke_callback ::
  "('w \<Rightarrow> 'p \<times> 'w) \<Rightarrow> string option \<Rightarrow> string \<Rightarrow> 'a config_env_scheme \<Rightarrow> 'w
     \<Rightarrow> (js_error + 'p user_config) \<times> 'w" where
  "invoke_callback factory dir wd ctx w =
     (case factory w of
        (plugin, w') \<Rightarrow>
          (case dir of
             None \<Rightarrow> (Inl (ReferenceError ''__dirname''), w')
           | Some d \<Rightarrow>
               (Inr \<lparr> base = devOrigin (mode ctx) @ ''/static/'',
                      plugins = [plugin],
                      server = \<lparr> host = devHost,
                                 port = devPort,
                                 strictPort = True,
                                 origin = devOrigin (mode ctx) \<rparr>,
                      build = \<lparr> manifest = True,
                                outDir = ''./dist/'',
                                emptyOutDir = True,
                                rollupOptions = [(''main'', ''./src/main.js'')] \<rparr>,
                      resolve = \<lparr> alias = [(''@'', path_resolve wd [d, ''./src''])] \<rparr> \<rparr>,
                w')))"



section \<open>Auxiliary facts\<close>

subsection \<open>The development origin\<close>

lemma number_to_string_devPort: "number_to_string devPort = ''5173''"
  by (simp add: number_to_string_def devPort_def nat_digits.simps digit_char_def)

lemma devOrigin_development: "devOrigin ''development'' = ''http://localhost:5173''"
  by (simp add: devOrigin_def isDev_def devHost_def number_to_string_devPort)

lemma devOrigin_other: "m \<noteq> ''development'' \<Longrightarrow> devOrigin m = []"
  by (simp add: devOrigin_def isDev_def)

subsection \<open>The two outcomes of the callback\<close>

lemma default_export_bound:
  "dirname rt = Some d \<Longrightarrow>
   default_export rt ctx =
     Inr \<lparr> base = devOrigin (mode ctx) @ ''/static/'',
           plugins = [tailwindcss rt ()],
           server = \<lparr> host = ''localhost'', port = 5173, strictPort = True,
                      origin = devOrigin (mode ctx) \<rparr>,
           build = \<lparr> manifest = True, outDir = ''./dist/'', emptyOutDir = True,
                     rollupOptions = [(''main'', ''./src/main.js'')] \<rparr>,
           resolve = \<lparr> alias = [(''@'', path_resolve (cwd rt) [d, ''./src''])] \<rparr> \<rparr>"
  by (simp add: default_export_def defineConfig_def config_callback_def devHost_def devPort_def)

lemma default_export_unbound:
  "dirname rt = None \<Longrightarrow> default_export rt ctx = Inl (ReferenceError ''__dirname'')"
  by (simp add: default_export_def defineConfig_def config_callback_def)

lemma default_export_returns_iff:
  "(\<exists>cfg. default_export rt ctx = Inr cfg) \<longleftrightarrow> dirname rt \<noteq> None"
  by (cases "dirname rt") (auto simp: default_export_unbound default_export_bound)

subsection \<open>The callback in its environment\<close>

text \<open>
  With a factory that leaves the state alone, the callback in its environment is the
  callback above.
\<close>

lemma invoke_callback_effect_free:
  "invoke_callback (\<lambda>w. (tailwindcss rt (), w)) (dirname rt) (cwd rt) ctx w
     = (default_export rt ctx, w)"
  by (simp add: invoke_callback_def default_export_def defineConfig_def config_callback_def
      split: option.splits)




subsection \<open>Resolving \<^verbatim>\<open>./src\<close> against a directory\<close>

text \<open>Cutting a path into segments loses nothing: joining them gives the path back.\<close>

lemma segments_nonempty: "segments s \<noteq> []"
  by (induction s) (auto split: list.splits)

lemma join_segments_Cons:
  "ss \<noteq> [] \<Longrightarrow> join_segments (s # ss) = s @ ''/'' @ join_segments ss"
  by (cases ss) simp_all

lemma join_segments_segments: "join_segments (segments s) = s"
proof (induction s)
  case Nil
  show ?case by simp
next
  case (Cons c cs)
  show ?case
  proof (cases "c = CHR ''/''")
    case True
    with Cons show ?thesis by (simp add: join_segments_Cons segments_nonempty)
  next
    case False
    obtain t ts where seg: "segments cs = t # ts"
      using segments_nonempty [of cs] by (cases "segments cs") auto
    with Cons have "join_segments (t # ts) = cs" by simp
    then have "join_segments ((c # t) # ts) = c # cs"
      by (cases ts) auto
    with False seg show ?thesis by simp
  qed
qed

lemma segments_no_slash:
  "CHR ''/'' \<notin> set s \<Longrightarrow> segments (s @ CHR ''/'' # t) = s # segments t"
  by (induction s) auto

lemma segments_join:
  "names \<noteq> [] \<Longrightarrow> \<forall>s \<in> set names. CHR ''/'' \<notin> set s \<Longrightarrow>
   segments (join_segments names @ CHR ''/'' # t) = names @ segments t"
proof (induction names rule: join_segments.induct)
  case 1
  then show ?case by simp
next
  case (2 s)
  then show ?case by (simp add: segments_no_slash)
next
  case (3 s u ss)
  then show ?case by (simp add: segments_no_slash)
qed

lemma foldl_push_names:
  "list_all is_name names \<Longrightarrow> foldl (push_segment b) res names = res @ names"
  by (induction names arbitrary: res) (auto simp: push_segment_def is_name_def)

lemma join_segments_snoc:
  "names \<noteq> [] \<Longrightarrow> join_segments (names @ [s]) = join_segments names @ ''/'' @ s"
  by (induction names rule: join_segments.induct) simp_all

lemma absolute_path_snoc:
  "absolute_path (names @ [s]) =
     (if names = [] then ''/'' @ s else absolute_path names @ ''/'' @ s)"
  by (simp add: absolute_path_def join_segments_snoc)

lemma path_resolve_adjacent:
  assumes "list_all is_name names"
  shows "path_resolve wd [absolute_path names, ''./src''] = absolute_path (names @ [''src''])"
proof -
  let ?d = "absolute_path names"
  have loop: "resolve_loop (rev [?d, ''./src''] @ [wd]) [] = (?d @ ''/./src/'', True)"
    by (simp add: absolute_path_def)
  have segs: "foldl (push_segment False) [] (segments (?d @ ''/./src/'')) = names @ [''src'']"
  proof (cases "names = []")
    case True
    then show ?thesis by (simp add: absolute_path_def push_segment_def)
  next
    case False
    from assms have slash: "\<forall>s \<in> set names. CHR ''/'' \<notin> set s"
      by (simp add: list_all_iff is_name_def)
    have "segments (?d @ ''/./src/'') = [] # names @ [''.'', ''src'', []]"
      using segments_join [OF False slash, of "''./src/''"]
      by (simp add: absolute_path_def)
    then show ?thesis
      using assms by (simp add: foldl_push_names) (simp add: push_segment_def)
  qed
  show ?thesis
    unfolding path_resolve_def loop
    by (simp add: normalizeString_def segs) (simp add: absolute_path_def)
qed

section \<open>Properties of the configuration\<close>

text \<open>
  A statement about the record returned is made for a runtime in which \<^verbatim>\<open>__dirname\<close>
  has a binding, as it has when Vite bundles the file to load it; without one the
  callback raises (\<open>default_export_unbound\<close>) and there is no record to speak of.
\<close>

text \<open>
  C1: for the mode \<^verbatim>\<open>"development"\<close> the callback returns a record; the development
  origin is \<^verbatim>\<open>http://localhost:5173\<close>, the base path is
  \<^verbatim>\<open>http://localhost:5173/static/\<close>, and the origin of the dev server is the
  development origin.
\<close>

theorem development_config:
  assumes "dirname rt = Some d" and "mode ctx = ''development''"
  shows "\<exists>cfg. default_export rt ctx = Inr cfg
           \<and> devOrigin (mode ctx) = ''http://localhost:5173''
           \<and> base cfg = ''http://localhost:5173/static/''
           \<and> origin (server cfg) = devOrigin (mode ctx)"
  using assms by (simp add: default_export_bound devOrigin_development)

theorem development_config_witness:
  "\<exists>cfg. default_export example_runtime \<lparr>mode = ''development''\<rparr> = Inr cfg
     \<and> devOrigin (mode \<lparr>mode = ''development''\<rparr>) = ''http://localhost:5173''
     \<and> base cfg = ''http://localhost:5173/static/''
     \<and> origin (server cfg) = devOrigin (mode \<lparr>mode = ''development''\<rparr>)"
  by (rule development_config [where d = "''/srv/app/frontend''"])
     (simp_all add: example_runtime_def)

text \<open>
  C2: for every mode other than the exact string \<^verbatim>\<open>"development"\<close> the development
  branch is not taken: the development origin is empty and the base path is
  \<^verbatim>\<open>/static/\<close>. The instance below is at \<^verbatim>\<open>"production"\<close>, the empty string,
  \<^verbatim>\<open>"test"\<close> and the near miss \<^verbatim>\<open>"Development"\<close>.
\<close>

theorem other_mode_config:
  assumes "dirname rt = Some d" and "mode ctx \<noteq> ''development''"
  shows "\<exists>cfg. default_export rt ctx = Inr cfg
           \<and> \<not> isDev (mode ctx)
           \<and> devOrigin (mode ctx) = []
           \<and> base cfg = ''/static/''"
  using assms by (simp add: default_export_bound devOrigin_other isDev_def)

theorem other_mode_config_witness:
  "(\<exists>cfg. default_export example_runtime \<lparr>mode = ''production''\<rparr> = Inr cfg
      \<and> devOrigin ''production'' = [] \<and> base cfg = ''/static/'')
   \<and> (\<exists>cfg. default_export example_runtime \<lparr>mode = []\<rparr> = Inr cfg
      \<and> devOrigin [] = [] \<and> base cfg = ''/static/'')
   \<and> (\<exists>cfg. default_export example_runtime \<lparr>mode = ''test''\<rparr> = Inr cfg
      \<and> devOrigin ''test'' = [] \<and> base cfg = ''/static/'')
   \<and> (\<exists>cfg. default_export example_runtime \<lparr>mode = ''Development''\<rparr> = Inr cfg
      \<and> devOrigin ''Development'' = [] \<and> base cfg = ''/static/'')"
  using other_mode_config [of example_runtime "''/srv/app/frontend''" "\<lparr>mode = ''production''\<rparr>"]
    other_mode_config [of example_runtime "''/srv/app/frontend''" "\<lparr>mode = []\<rparr>"]
    other_mode_config [of example_runtime "''/srv/app/frontend''" "\<lparr>mode = ''test''\<rparr>"]
    other_mode_config [of example_runtime "''/srv/app/frontend''" "\<lparr>mode = ''Development''\<rparr>"]
  by (auto simp: example_runtime_def)

text \<open>
  C3: for every mode the base path is the development origin followed by
  \<^verbatim>\<open>/static/\<close>, the development origin is \<^verbatim>\<open>http://localhost:5173\<close> exactly for the
  mode \<^verbatim>\<open>"development"\<close> and empty otherwise, and the origin of the dev server is that
  same development origin.
\<close>

theorem base_is_devOrigin_static:
  assumes "dirname rt = Some d"
  shows "\<exists>cfg. default_export rt ctx = Inr cfg
           \<and> base cfg = devOrigin (mode ctx) @ ''/static/''
           \<and> devOrigin (mode ctx) =
               (if mode ctx = ''development'' then ''http://localhost:5173'' else [])
           \<and> origin (server cfg) = devOrigin (mode ctx)"
  using assms by (simp add: default_export_bound devOrigin_development devOrigin_other)

theorem base_is_devOrigin_static_witness:
  "\<exists>cfg. default_export example_runtime \<lparr>mode = ''staging''\<rparr> = Inr cfg
     \<and> base cfg = devOrigin ''staging'' @ ''/static/''
     \<and> devOrigin ''staging'' = []
     \<and> origin (server cfg) = devOrigin ''staging''"
  using base_is_devOrigin_static [of example_runtime "''/srv/app/frontend''" "\<lparr>mode = ''staging''\<rparr>"]
  by (simp add: example_runtime_def)

text \<open>
  C4: the build block is to designate \<^verbatim>\<open>./src/main.js\<close> as the entry point. For
  every mode the callback writes that path under the key \<^verbatim>\<open>main\<close> of
  \<^verbatim>\<open>rollupOptions\<close>, the only key of that object; the option \<^verbatim>\<open>input\<close>, from which
  the entry is read, is not set, so the build block designates no entry point.
\<close>

theorem rollup_input_not_set:
  "\<forall>ctx :: config_env.
     \<exists>cfg. default_export example_runtime ctx = Inr cfg
       \<and> rollupOptions (build cfg) = [(''main'', ''./src/main.js'')]
       \<and> rollup_input (build cfg) = None"
proof -
  have dir: "dirname example_runtime = Some ''/srv/app/frontend''"
    by (simp add: example_runtime_def)
  show ?thesis
    by (simp add: default_export_bound [OF dir] rollup_input_def)
qed

text \<open>
  C5: for every mode the alias object has the one key \<^verbatim>\<open>@\<close>, bound to the absolute
  path of the directory \<^verbatim>\<open>src\<close> inside the directory \<^verbatim>\<open>__dirname\<close> names, whenever
  that is the absolute path of a directory given by its names from the root (as the
  directory of the configuration file is on a POSIX system).
\<close>

theorem alias_at_is_adjacent_src:
  assumes "dirname rt = Some (absolute_path names)" and "list_all is_name names"
  shows "\<exists>cfg. default_export rt ctx = Inr cfg
           \<and> alias (resolve cfg) = [(''@'', absolute_path (names @ [''src'']))]
           \<and> map_of (alias (resolve cfg)) ''@'' =
               Some (if names = [] then ''/src'' else absolute_path names @ ''/src'')"
  using assms by (simp add: default_export_bound path_resolve_adjacent absolute_path_snoc)

theorem alias_at_is_adjacent_src_witness:
  "\<exists>cfg. default_export example_runtime \<lparr>mode = ''production''\<rparr> = Inr cfg
     \<and> alias (resolve cfg) = [(''@'', ''/srv/app/frontend/src'')]
     \<and> map_of (alias (resolve cfg)) ''@'' = Some ''/srv/app/frontend/src''"
  using alias_at_is_adjacent_src [of example_runtime "[''srv'', ''app'', ''frontend'']"
      "\<lparr>mode = ''production''\<rparr>"]
  by (auto simp: example_runtime_def absolute_path_def is_name_def)

text \<open>
  C6: for every mode the dev-server block has the host \<^verbatim>\<open>localhost\<close>, the port 5173
  and a strict port.
\<close>

theorem server_block_fixed:
  assumes "dirname rt = Some d"
  shows "\<exists>cfg. default_export rt ctx = Inr cfg
           \<and> host (server cfg) = ''localhost''
           \<and> port (server cfg) = 5173
           \<and> strictPort (server cfg)"
  using assms by (simp add: default_export_bound)

theorem server_block_fixed_witness:
  "\<exists>cfg. default_export example_runtime \<lparr>mode = ''development''\<rparr> = Inr cfg
     \<and> host (server cfg) = ''localhost''
     \<and> port (server cfg) = 5173
     \<and> strictPort (server cfg)"
  by (rule server_block_fixed [where d = "''/srv/app/frontend''"])
     (simp add: example_runtime_def)

text \<open>
  C7: for every mode the build block has the output directory \<^verbatim>\<open>./dist/\<close>, emits
  the manifest and empties the output directory first.
\<close>

theorem build_block_fixed:
  assumes "dirname rt = Some d"
  shows "\<exists>cfg. default_export rt ctx = Inr cfg
           \<and> outDir (build cfg) = ''./dist/''
           \<and> manifest (build cfg)
           \<and> emptyOutDir (build cfg)"
  using assms by (simp add: default_export_bound)

theorem build_block_fixed_witness:
  "\<exists>cfg. default_export example_runtime \<lparr>mode = ''test''\<rparr> = Inr cfg
     \<and> outDir (build cfg) = ''./dist/''
     \<and> manifest (build cfg)
     \<and> emptyOutDir (build cfg)"
  by (rule build_block_fixed [where d = "''/srv/app/frontend''"])
     (simp add: example_runtime_def)

text \<open>
  C8: the callback is to return a record for every mode. It returns one exactly when
  \<^verbatim>\<open>__dirname\<close> has a binding (\<open>default_export_returns_iff\<close>). The file is an ES
  module, in which Node binds no \<^verbatim>\<open>__dirname\<close>: imported as it is, the callback raises
  \<^verbatim>\<open>ReferenceError\<close> at the alias, for \<^verbatim>\<open>"production"\<close>, \<^verbatim>\<open>"development"\<close> and every
  other mode.
\<close>

theorem unbound_dirname_raises:
  "default_export node_esm_runtime \<lparr>mode = ''production''\<rparr> = Inl (ReferenceError ''__dirname'')
   \<and> default_export node_esm_runtime \<lparr>mode = ''development''\<rparr> = Inl (ReferenceError ''__dirname'')
   \<and> (\<forall>ctx :: config_env.
         default_export node_esm_runtime ctx = Inl (ReferenceError ''__dirname''))"
proof -
  have dir: "dirname node_esm_runtime = None"
    by (simp add: node_esm_runtime_def)
  show ?thesis
    by (simp add: default_export_unbound [OF dir])
qed




text \<open>
  C10: the mode reaches the base path and the origin of the dev server only: two
  records returned in one runtime agree on the plugins, on the host, port and strict
  port of the dev server, on the build block and on the aliases, and the one becomes
  the other when its base path and its dev-server origin are replaced.
\<close>

theorem mode_reaches_base_and_origin_only:
  assumes "default_export rt ctx = Inr cfg" and "default_export rt ctx' = Inr cfg'"
  shows "plugins cfg = plugins cfg'
       \<and> host (server cfg) = host (server cfg')
       \<and> port (server cfg) = port (server cfg')
       \<and> strictPort (server cfg) = strictPort (server cfg')
       \<and> build cfg = build cfg'
       \<and> resolve cfg = resolve cfg'
       \<and> cfg\<lparr>base := base cfg', server := (server cfg)\<lparr>origin := origin (server cfg')\<rparr>\<rparr> = cfg'"
proof (cases "dirname rt")
  case None
  with assms show ?thesis by (simp add: default_export_unbound)
next
  case (Some d)
  with assms show ?thesis by (auto simp: default_export_bound)
qed

theorem mode_reaches_base_and_origin_only_witness:
  "\<exists>cfg cfg'. default_export example_runtime \<lparr>mode = ''development''\<rparr> = Inr cfg
     \<and> default_export example_runtime \<lparr>mode = ''production''\<rparr> = Inr cfg'
     \<and> base cfg \<noteq> base cfg'
     \<and> origin (server cfg) \<noteq> origin (server cfg')
     \<and> build cfg = build cfg'
     \<and> resolve cfg = resolve cfg'
     \<and> plugins cfg = plugins cfg'
     \<and> cfg\<lparr>base := base cfg', server := (server cfg)\<lparr>origin := origin (server cfg')\<rparr>\<rparr> = cfg'"
proof -
  have dir: "dirname example_runtime = Some ''/srv/app/frontend''"
    by (simp add: example_runtime_def)
  obtain cfg cfg' where
    dev: "default_export example_runtime \<lparr>mode = ''development''\<rparr> = Inr cfg" and
    prod: "default_export example_runtime \<lparr>mode = ''production''\<rparr> = Inr cfg'"
    by (simp add: default_export_bound [OF dir])
  have differ: "base cfg \<noteq> base cfg' \<and> origin (server cfg) \<noteq> origin (server cfg')"
    using dev prod
    by (auto simp: default_export_bound [OF dir] devOrigin_development devOrigin_other)
  show ?thesis
    using mode_reaches_base_and_origin_only [OF dev prod] dev prod differ by blast
qed

end
